theory Spec2Isabelle
  imports Complex_Main
begin

section \<open>Values that cross the wire\<close>

text \<open>
  Python's \<open>float\<close> is used by the consumers only through the comparisons \<open><\<close> and
  \<open>>\<close>; no arithmetic is done on it. A float is therefore modelled by the number it
  denotes, with the two infinities and NaN beside it, and the comparisons follow IEEE 754:
  every comparison with NaN is false.
\<close>

datatype pyfloat = Finite real | PosInf | NegInf | NaN

fun float_lt :: "pyfloat \<Rightarrow> pyfloat \<Rightarrow> bool" where
  "float_lt NaN b = False"
| "float_lt a NaN = False"
| "float_lt (Finite a) (Finite b) = (a < b)"
| "float_lt (Finite a) PosInf = True"
| "float_lt (Finite a) NegInf = False"
| "float_lt NegInf NegInf = False"
| "float_lt NegInf b = True"
| "float_lt PosInf b = False"

definition float_gt :: "pyfloat \<Rightarrow> pyfloat \<Rightarrow> bool" where
  "float_gt a b = float_lt b a"

fun float_le :: "pyfloat \<Rightarrow> pyfloat \<Rightarrow> bool" where
  "float_le NaN b = False"
| "float_le a NaN = False"
| "float_le a b = (a = b \<or> float_lt a b)"

definition float_ge :: "pyfloat \<Rightarrow> pyfloat \<Rightarrow> bool" where
  "float_ge a b = float_le b a"

text \<open>
  A JSON document. A number is kept as the float it converts to (neither payload schema
  has an integer field); an object keeps its members in document order, duplicates
  included.
\<close>

datatype json =
    JNull
  | JBool bool
  | JNum pyfloat
  | JStr string
  | JArr "json list"
  | JObj "(string \<times> json) list"

text \<open>
  \<open>datetime.datetime\<close>: the calendar fields and the UTC offset in seconds
  (\<open>None\<close> for a naive value).
\<close>

datatype datetime =
  Datetime (year: nat) (month: nat) (day: nat) (hour: nat) (minute: nat) (second: nat)
    (microsecond: nat) (utcoffset: "int option")

text \<open>
  The body of a message, \<open>msg.data\<close>, is a byte string that the handlers first decode
  as UTF-8 and then hand to the JSON parser of the validation library. Both steps are
  library code; a body is modelled by what they make of it: bytes that do not decode,
  text that is not JSON, or text that parses to a document.
\<close>

datatype decoded = Malformed | Document json

datatype bytes = Undecodable | Utf8 decoded

record Msg =
  subject :: string
  data :: bytes

section \<open>Errors\<close>

text \<open>
  A \<open>ValidationError\<close> carries one line per offending location: the field name (empty
  for the document itself) and the kind of error.
\<close>

datatype error_type =
    Json_invalid
  | Model_type
  | Missing
  | Extra_forbidden
  | String_type
  | Float_type
  | Float_parsing
  | Dict_type
  | Datetime_invalid
  | Url_invalid

type_synonym line_error = "string \<times> error_type"

datatype exn =
    UnicodeDecodeError
  | SQLAlchemyError

section \<open>api/models.py: the two inbound payload schemas\<close>

text \<open>
  Three parsers of the validation library are taken as parameters: what a string must
  look like to be read as a float, what JSON value is a datetime, and what JSON value is
  an http(s) URL (answering its normalised text). Every theorem below holds whatever
  they are.
\<close>

record pydantic_lib =
  str_as_float :: "string \<Rightarrow> pyfloat option"
  datetime_of_json :: "json \<Rightarrow> datetime option"
  http_url_of_json :: "json \<Rightarrow> string option"

text \<open>Field validators, in the library's default (lax) mode on JSON input.\<close>

fun validate_str :: "json \<Rightarrow> error_type + string" where
  "validate_str (JStr s) = Inr s"
| "validate_str j = Inl String_type"

fun validate_float :: "pydantic_lib \<Rightarrow> json \<Rightarrow> error_type + pyfloat" where
  "validate_float lib (JNum f) = Inr f"
| "validate_float lib (JBool b) = Inr (Finite (if b then 1 else 0))"
| "validate_float lib (JStr s) =
     (case str_as_float lib s of None \<Rightarrow> Inl Float_parsing | Some f \<Rightarrow> Inr f)"
| "validate_float lib j = Inl Float_type"

fun validate_dict :: "json \<Rightarrow> error_type + (string \<times> json) list" where
  "validate_dict (JObj kvs) = Inr kvs"
| "validate_dict j = Inl Dict_type"

definition validate_datetime :: "pydantic_lib \<Rightarrow> json \<Rightarrow> error_type + datetime" where
  "validate_datetime lib j =
     (case datetime_of_json lib j of None \<Rightarrow> Inl Datetime_invalid | Some t \<Rightarrow> Inr t)"

definition validate_http_url :: "pydantic_lib \<Rightarrow> json \<Rightarrow> error_type + string" where
  "validate_http_url lib j =
     (case http_url_of_json lib j of None \<Rightarrow> Inl Url_invalid | Some u \<Rightarrow> Inr u)"

text \<open>
  A member of an object is looked up by name; of two members with one name the later
  wins. A declared field without a default is required: its absence is the error
  \<open>Missing\<close>.
\<close>

definition get_field :: "(string \<times> json) list \<Rightarrow> string \<Rightarrow> json option" where
  "get_field kvs k = map_of (rev kvs) k"

definition required ::
  "(string \<times> json) list \<Rightarrow> string \<Rightarrow> (json \<Rightarrow> error_type + 'a) \<Rightarrow> error_type + 'a" where
  "required kvs k v = (case get_field kvs k of None \<Rightarrow> Inl Missing | Some j \<Rightarrow> v j)"

definition line_of :: "string \<Rightarrow> error_type + 'a \<Rightarrow> line_error list" where
  "line_of k r = (case r of Inl e \<Rightarrow> [(k, e)] | Inr x \<Rightarrow> [])"

text \<open>\<open>model_config = ConfigDict(extra="forbid")\<close>: every member outside the declared
  fields is an error of its own.\<close>

definition extra_forbidden :: "string list \<Rightarrow> (string \<times> json) list \<Rightarrow> line_error list" where
  "extra_forbidden declared kvs =
     map (\<lambda>kv. (fst kv, Extra_forbidden)) (filter (\<lambda>kv. fst kv \<notin> set declared) kvs)"

text \<open>
  \<open>class LitterEventPayload(BaseModel)\<close>: \<open>pet_id: str\<close>, \<open>type: str\<close>,
  \<open>ts: datetime\<close>, \<open>duration_s: float\<close>, \<open>conf: float\<close>, \<open>payload: Dict[str, Any]\<close>.
  No field has a default or a constraint. The fields carry the prefix \<open>litter_\<close> here,
  since three further classes have fields of the same names.
\<close>

record LitterEventPayload =
  litter_pet_id :: string
  litter_type :: string
  litter_ts :: datetime
  litter_duration_s :: pyfloat
  litter_conf :: pyfloat
  litter_payload :: "(string \<times> json) list"

definition LitterEventPayload_fields :: "string list" where
  "LitterEventPayload_fields =
     [''pet_id'', ''type'', ''ts'', ''duration_s'', ''conf'', ''payload'']"

definition LitterEventPayload_errors :: "pydantic_lib \<Rightarrow> (string \<times> json) list \<Rightarrow> line_error list" where
  "LitterEventPayload_errors lib kvs =
     line_of ''pet_id'' (required kvs ''pet_id'' validate_str) @
     line_of ''type'' (required kvs ''type'' validate_str) @
     line_of ''ts'' (required kvs ''ts'' (validate_datetime lib)) @
     line_of ''duration_s'' (required kvs ''duration_s'' (validate_float lib)) @
     line_of ''conf'' (required kvs ''conf'' (validate_float lib)) @
     line_of ''payload'' (required kvs ''payload'' validate_dict) @
     extra_forbidden LitterEventPayload_fields kvs"

definition LitterEventPayload_validate ::
  "pydantic_lib \<Rightarrow> json \<Rightarrow> line_error list + LitterEventPayload" where
  "LitterEventPayload_validate lib j =
     (case j of
        JObj kvs \<Rightarrow>
          (case (required kvs ''pet_id'' validate_str,
                 required kvs ''type'' validate_str,
                 required kvs ''ts'' (validate_datetime lib),
                 required kvs ''duration_s'' (validate_float lib),
                 required kvs ''conf'' (validate_float lib),
                 required kvs ''payload'' validate_dict,
                 extra_forbidden LitterEventPayload_fields kvs) of
             (Inr p, Inr ty, Inr t, Inr d, Inr c, Inr pl, []) \<Rightarrow>
               Inr \<lparr>litter_pet_id = p, litter_type = ty, litter_ts = t,
                    litter_duration_s = d, litter_conf = c, litter_payload = pl\<rparr>
           | other \<Rightarrow> Inl (LitterEventPayload_errors lib kvs))
      | other \<Rightarrow> Inl [([], Model_type)])"

text \<open>
  \<open>class PlayroomAlertPayload(BaseModel)\<close>: \<open>pet_id\<close>, \<open>room_id\<close>, \<open>kind\<close>,
  \<open>severity\<close>, \<open>state\<close>: \<open>str\<close>; \<open>evidence_url: HttpUrl\<close>; \<open>ts: datetime\<close>. The
  validated URL is kept as the text that \<open>str\<close> gives of it.
\<close>

record PlayroomAlertPayload =
  playroom_pet_id :: string
  playroom_room_id :: string
  playroom_kind :: string
  playroom_severity :: string
  playroom_state :: string
  playroom_evidence_url :: string
  playroom_ts :: datetime

definition PlayroomAlertPayload_fields :: "string list" where
  "PlayroomAlertPayload_fields =
     [''pet_id'', ''room_id'', ''kind'', ''severity'', ''state'', ''evidence_url'', ''ts'']"

definition PlayroomAlertPayload_errors :: "pydantic_lib \<Rightarrow> (string \<times> json) list \<Rightarrow> line_error list" where
  "PlayroomAlertPayload_errors lib kvs =
     line_of ''pet_id'' (required kvs ''pet_id'' validate_str) @
     line_of ''room_id'' (required kvs ''room_id'' validate_str) @
     line_of ''kind'' (required kvs ''kind'' validate_str) @
     line_of ''severity'' (required kvs ''severity'' validate_str) @
     line_of ''state'' (required kvs ''state'' validate_str) @
     line_of ''evidence_url'' (required kvs ''evidence_url'' (validate_http_url lib)) @
     line_of ''ts'' (required kvs ''ts'' (validate_datetime lib)) @
     extra_forbidden PlayroomAlertPayload_fields kvs"

definition PlayroomAlertPayload_validate ::
  "pydantic_lib \<Rightarrow> json \<Rightarrow> line_error list + PlayroomAlertPayload" where
  "PlayroomAlertPayload_validate lib j =
     (case j of
        JObj kvs \<Rightarrow>
          (case (required kvs ''pet_id'' validate_str,
                 required kvs ''room_id'' validate_str,
                 required kvs ''kind'' validate_str,
                 required kvs ''severity'' validate_str,
                 required kvs ''state'' validate_str,
                 required kvs ''evidence_url'' (validate_http_url lib),
                 required kvs ''ts'' (validate_datetime lib),
                 extra_forbidden PlayroomAlertPayload_fields kvs) of
             (Inr p, Inr r, Inr k, Inr sv, Inr st, Inr u, Inr t, []) \<Rightarrow>
               Inr \<lparr>playroom_pet_id = p, playroom_room_id = r, playroom_kind = k,
                    playroom_severity = sv, playroom_state = st,
                    playroom_evidence_url = u, playroom_ts = t\<rparr>
           | other \<Rightarrow> Inl (PlayroomAlertPayload_errors lib kvs))
      | other \<Rightarrow> Inl [([], Model_type)])"

text \<open>\<open>model_validate_json\<close>: text that is not JSON is a validation error too.\<close>

definition LitterEventPayload_model_validate_json ::
  "pydantic_lib \<Rightarrow> decoded \<Rightarrow> line_error list + LitterEventPayload" where
  "LitterEventPayload_model_validate_json lib t =
     (case t of Malformed \<Rightarrow> Inl [([], Json_invalid)]
      | Document j \<Rightarrow> LitterEventPayload_validate lib j)"

definition PlayroomAlertPayload_model_validate_json ::
  "pydantic_lib \<Rightarrow> decoded \<Rightarrow> line_error list + PlayroomAlertPayload" where
  "PlayroomAlertPayload_model_validate_json lib t =
     (case t of Malformed \<Rightarrow> Inl [([], Json_invalid)]
      | Document j \<Rightarrow> PlayroomAlertPayload_validate lib j)"

text \<open>\<open>bytes.decode("utf-8")\<close> raises \<open>UnicodeDecodeError\<close> on bytes that are not UTF-8.\<close>

definition decode :: "bytes \<Rightarrow> exn + decoded" where
  "decode b = (case b of Undecodable \<Rightarrow> Inl UnicodeDecodeError | Utf8 t \<Rightarrow> Inr t)"

section \<open>api/database.py: rows, the session and the three writers\<close>

text \<open>
  \<open>class EventRecordORM\<close> and \<open>class AlertRecord\<close>. The columns \<open>id\<close> and
  \<open>created_at\<close> have Python-side defaults (\<open>uuid4\<close>, \<open>_utcnow\<close>) that are drawn when
  the row is written, so an object that has not been written yet has \<open>None\<close> there.
\<close>

record EventRecordORM =
  event_id :: "string option"
  event_source :: string
  event_pet_id :: string
  event_type :: string
  event_ts :: datetime
  event_duration_s :: "pyfloat option"
  event_conf :: "pyfloat option"
  event_payload_json :: "(string \<times> json) list"
  event_created_at :: "datetime option"

record AlertRecord =
  alert_id :: "string option"
  alert_pet_id :: string
  alert_room_id :: "string option"
  alert_kind :: string
  alert_severity :: string
  alert_state :: string
  alert_evidence_url :: "string option"
  alert_ts :: datetime
  alert_created_at :: "datetime option"

datatype orm_object = EventObj EventRecordORM | AlertObj AlertRecord

text \<open>The calls made on the module's logger: level, format string, arguments.\<close>

datatype log_level = INFO | ERROR

datatype log_arg = Str string | Exc "line_error list"

datatype log_record = LogRecord (level: log_level) (fmt: string) (args: "log_arg list")

text \<open>
  Everything outside the handler that it reads or writes: the committed rows of the two
  tables, the log, and three sources the code draws from. \<open>clock\<close> answers the
  successive calls of \<open>datetime.now(timezone.utc)\<close>, \<open>uuid4\<close> the successive fresh
  identifiers, and \<open>commit_faults\<close> says for the coming writes to the store which of them
  fail (\<open>True\<close>); past its end every write succeeds.

  \<open>column_datetime\<close> is what the store keeps of a value written to a column declared
  \<open>DateTime(timezone=True)\<close>; it depends on the store that \<open>database_url\<close> names.
  SQLite, which both \<open>EdgeSettings\<close> and the API select when \<open>POSTGRES_URL\<close> is not
  set, has no time zone in its column type: it keeps the wall time of the value and drops
  the UTC offset (\<open>sqlite_datetime\<close>). String, float and JSON columns are taken to keep
  the value written.
\<close>

definition sqlite_datetime :: "datetime \<Rightarrow> datetime" where
  "sqlite_datetime t =
     Datetime (year t) (month t) (day t) (hour t) (minute t) (second t) (microsecond t) None"

record world =
  events :: "EventRecordORM list"
  alerts :: "AlertRecord list"
  log :: "log_record list"
  clock :: "nat \<Rightarrow> datetime"
  clock_reads :: nat
  uuid4 :: "nat \<Rightarrow> string"
  uuids_drawn :: nat
  commit_faults :: "bool list"
  column_datetime :: "datetime \<Rightarrow> datetime"

text \<open>\<open>def _utcnow()\<close>\<close>

definition utcnow :: "world \<Rightarrow> datetime \<times> world" where
  "utcnow w = (clock w (clock_reads w), w\<lparr>clock_reads := Suc (clock_reads w)\<rparr>)"

definition new_uuid :: "world \<Rightarrow> string \<times> world" where
  "new_uuid w = (uuid4 w (uuids_drawn w), w\<lparr>uuids_drawn := Suc (uuids_drawn w)\<rparr>)"

text \<open>
  Writing one object: the column defaults are filled in where the object has no value,
  and the row joins its table with its datetime columns as the store keeps them. The
  object itself, which the session hands back, keeps the values it was given
  (\<open>expire_on_commit=False\<close>).
\<close>

definition event_row :: "(datetime \<Rightarrow> datetime) \<Rightarrow> EventRecordORM \<Rightarrow> EventRecordORM" where
  "event_row col r =
     r\<lparr>event_ts := col (event_ts r), event_created_at := map_option col (event_created_at r)\<rparr>"

definition alert_row :: "(datetime \<Rightarrow> datetime) \<Rightarrow> AlertRecord \<Rightarrow> AlertRecord" where
  "alert_row col r =
     r\<lparr>alert_ts := col (alert_ts r), alert_created_at := map_option col (alert_created_at r)\<rparr>"

definition insert_event :: "EventRecordORM \<Rightarrow> world \<Rightarrow> EventRecordORM \<times> world" where
  "insert_event r w =
     (let (i, w1) = (case event_id r of None \<Rightarrow> (let (u, w') = new_uuid w in (Some u, w'))
                     | Some u \<Rightarrow> (Some u, w));
          (c, w2) = (case event_created_at r of None \<Rightarrow> (let (t, w') = utcnow w1 in (Some t, w'))
                     | Some t \<Rightarrow> (Some t, w1));
          obj = r\<lparr>event_id := i, event_created_at := c\<rparr>
      in (obj, w2\<lparr>events := events w2 @ [event_row (column_datetime w2) obj]\<rparr>))"

definition insert_alert :: "AlertRecord \<Rightarrow> world \<Rightarrow> AlertRecord \<times> world" where
  "insert_alert r w =
     (let (i, w1) = (case alert_id r of None \<Rightarrow> (let (u, w') = new_uuid w in (Some u, w'))
                     | Some u \<Rightarrow> (Some u, w));
          (c, w2) = (case alert_created_at r of None \<Rightarrow> (let (t, w') = utcnow w1 in (Some t, w'))
                     | Some t \<Rightarrow> (Some t, w1));
          obj = r\<lparr>alert_id := i, alert_created_at := c\<rparr>
      in (obj, w2\<lparr>alerts := alerts w2 @ [alert_row (column_datetime w2) obj]\<rparr>))"

fun flush :: "orm_object list \<Rightarrow> world \<Rightarrow> orm_object list \<times> world" where
  "flush [] w = ([], w)"
| "flush (EventObj r # objs) w =
     (let (obj, w1) = insert_event r w; (rest, w2) = flush objs w1 in (EventObj obj # rest, w2))"
| "flush (AlertObj r # objs) w =
     (let (obj, w1) = insert_alert r w; (rest, w2) = flush objs w1 in (AlertObj obj # rest, w2))"

text \<open>
  A \<open>Session\<close> is the list of objects added to it and not yet committed.
  \<open>session.commit()\<close> with nothing pending touches no connection and cannot fail;
  otherwise the write either fails as a whole, leaving the tables as they were and the
  objects pending, or every pending object is written and the session is empty again.
  \<open>session.rollback()\<close> drops what is pending; committed rows are out of its reach.
\<close>

type_synonym Session = "orm_object list"

definition session_add :: "orm_object \<Rightarrow> Session \<Rightarrow> Session" where
  "session_add obj session = session @ [obj]"

definition session_commit :: "Session \<Rightarrow> world \<Rightarrow> (exn + orm_object list) \<times> Session \<times> world" where
  "session_commit session w =
     (if session = [] then (Inr [], [], w)
      else (case commit_faults w of
              True # fs \<Rightarrow> (Inl SQLAlchemyError, session, w\<lparr>commit_faults := fs\<rparr>)
            | False # fs \<Rightarrow>
                (let (objs, w1) = flush session (w\<lparr>commit_faults := fs\<rparr>) in (Inr objs, [], w1))
            | [] \<Rightarrow> (let (objs, w1) = flush session w in (Inr objs, [], w1))))"

definition session_rollback :: "Session \<Rightarrow> world \<Rightarrow> Session \<times> world" where
  "session_rollback session w = ([], w)"

text \<open>
  \<open>def session_scope()\<close>: the body runs on a fresh session; when it returns the session
  is committed, when it (or that commit) raises the session is rolled back and the
  exception raised again.
\<close>

definition session_scope ::
  "(Session \<Rightarrow> world \<Rightarrow> (exn + 'a) \<times> Session \<times> world) \<Rightarrow> world \<Rightarrow> (exn + 'a) \<times> world" where
  "session_scope body w =
     (case body [] w of
        (Inr v, session, w1) \<Rightarrow>
          (case session_commit session w1 of
             (Inr objs, session', w2) \<Rightarrow> (Inr v, w2)
           | (Inl e, session', w2) \<Rightarrow> (Inl e, snd (session_rollback session' w2)))
      | (Inl e, session, w1) \<Rightarrow> (Inl e, snd (session_rollback session w1)))"

text \<open>
  \<open>def record_litter_event(session, subject, payload)\<close>. The value returned is the
  object as the session leaves it, from which the code builds an \<open>EventRecord\<close>.
\<close>

definition record_litter_event ::
  "Session \<Rightarrow> world \<Rightarrow> string \<Rightarrow> LitterEventPayload \<Rightarrow> (exn + orm_object) \<times> Session \<times> world" where
  "record_litter_event session w subj payload =
     (let record = \<lparr>event_id = None,
                     event_source = subj,
                     event_pet_id = litter_pet_id payload,
                     event_type = litter_type payload,
                     event_ts = litter_ts payload,
                     event_duration_s = Some (litter_duration_s payload),
                     event_conf = Some (litter_conf payload),
                     event_payload_json = litter_payload payload,
                     event_created_at = None\<rparr>
      in (case session_commit (session_add (EventObj record) session) w of
            (Inl e, session', w') \<Rightarrow> (Inl e, session', w')
          | (Inr objs, session', w') \<Rightarrow> (Inr (last objs), session', w')))"

text \<open>\<open>def record_playroom_alert(session, payload)\<close>\<close>

definition record_playroom_alert ::
  "Session \<Rightarrow> world \<Rightarrow> PlayroomAlertPayload \<Rightarrow> (exn + orm_object) \<times> Session \<times> world" where
  "record_playroom_alert session w payload =
     (let record = \<lparr>alert_id = None,
                     alert_pet_id = playroom_pet_id payload,
                     alert_room_id = Some (playroom_room_id payload),
                     alert_kind = playroom_kind payload,
                     alert_severity = playroom_severity payload,
                     alert_state = playroom_state payload,
                     alert_evidence_url = Some (playroom_evidence_url payload),
                     alert_ts = playroom_ts payload,
                     alert_created_at = None\<rparr>
      in (case session_commit (session_add (AlertObj record) session) w of
            (Inl e, session', w') \<Rightarrow> (Inl e, session', w')
          | (Inr objs, session', w') \<Rightarrow> (Inr (last objs), session', w')))"

text \<open>
  \<open>def create_alert_from_event(session, pet_id, kind, severity, state="open",
  room_id=None, evidence_url=None, ts=None)\<close>; \<open>ts or _utcnow()\<close> reads the clock only
  when no \<open>ts\<close> is given.
\<close>

definition create_alert_from_event ::
  "Session \<Rightarrow> world \<Rightarrow> string \<Rightarrow> string \<Rightarrow> string \<Rightarrow> string \<Rightarrow> string option \<Rightarrow>
   string option \<Rightarrow> datetime option \<Rightarrow> (exn + orm_object) \<times> Session \<times> world" where
  "create_alert_from_event session w pet_id kind severity state room_id evidence_url ts =
     (let (t, w0) = (case ts of None \<Rightarrow> utcnow w | Some t \<Rightarrow> (t, w));
          record = \<lparr>alert_id = None,
                     alert_pet_id = pet_id,
                     alert_room_id = room_id,
                     alert_kind = kind,
                     alert_severity = severity,
                     alert_state = state,
                     alert_evidence_url = evidence_url,
                     alert_ts = t,
                     alert_created_at = None\<rparr>
      in (case session_commit (session_add (AlertObj record) session) w0 of
            (Inl e, session', w') \<Rightarrow> (Inl e, session', w')
          | (Inr objs, session', w') \<Rightarrow> (Inr (last objs), session', w')))"

section \<open>edge/consumer.py: the two handlers\<close>

text \<open>\<open>class EdgeSettings\<close>, with the values it takes when the environment sets none.\<close>

record EdgeSettings =
  nats_url :: string
  database_url :: string
  litter_conf_threshold :: pyfloat
  litter_duration_threshold :: pyfloat

definition default_settings :: EdgeSettings where
  "default_settings =
     \<lparr>nats_url = ''nats://localhost:4222'',
      database_url = ''sqlite:///./pets.db'',
      litter_conf_threshold = Finite 0.4,
      litter_duration_threshold = Finite 180\<rparr>"

definition logger_error :: "string \<Rightarrow> log_arg list \<Rightarrow> world \<Rightarrow> world" where
  "logger_error f as w = w\<lparr>log := log w @ [LogRecord ERROR f as]\<rparr>"

definition logger_info :: "string \<Rightarrow> log_arg list \<Rightarrow> world \<Rightarrow> world" where
  "logger_info f as w = w\<lparr>log := log w @ [LogRecord INFO f as]\<rparr>"

text \<open>
  \<open>async def handle_litter_event(msg)\<close>. The result is \<open>Inr ()\<close> when the handler
  returns and \<open>Inl e\<close> when it raises \<open>e\<close>, beside the world it leaves. The
  \<open>try\<close> catches \<open>ValidationError\<close> only: a body that does not decode raises past it.
\<close>

definition handle_litter_event ::
  "EdgeSettings \<Rightarrow> pydantic_lib \<Rightarrow> Msg \<Rightarrow> world \<Rightarrow> (exn + unit) \<times> world" where
  "handle_litter_event SETTINGS lib msg w =
     (case decode (data msg) of
        Inl e \<Rightarrow> (Inl e, w)
      | Inr txt \<Rightarrow>
          (case LitterEventPayload_model_validate_json lib txt of
             Inl exc \<Rightarrow> (Inr (), logger_error ''Invalid litter event received: %s'' [Exc exc] w)
           | Inr payload \<Rightarrow>
               session_scope
                 (\<lambda>session w1.
                    (case record_litter_event session w1 (subject msg) payload of
                       (Inl e, session', w2) \<Rightarrow> (Inl e, session', w2)
                     | (Inr row, session', w2) \<Rightarrow>
                         (let duration_breach =
                                float_gt (litter_duration_s payload) (litter_duration_threshold SETTINGS);
                              confidence_breach =
                                float_lt (litter_conf payload) (litter_conf_threshold SETTINGS)
                          in if duration_breach \<or> confidence_breach then
                               (let severity = (if confidence_breach then ''high'' else ''moderate'')
                                in (case create_alert_from_event session' w2 (litter_pet_id payload)
                                           ''litter-anomaly'' severity ''open'' None None None of
                                      (Inl e, session'', w3) \<Rightarrow> (Inl e, session'', w3)
                                    | (Inr alert, session'', w3) \<Rightarrow> (Inr (), session'', w3)))
                             else (Inr (), session', w2))))
                 (logger_info ''Received litter event on %s for pet %s''
                    [Str (subject msg), Str (litter_pet_id payload)] w)))"

text \<open>\<open>async def handle_playroom_alert(msg)\<close>\<close>

definition handle_playroom_alert ::
  "pydantic_lib \<Rightarrow> Msg \<Rightarrow> world \<Rightarrow> (exn + unit) \<times> world" where
  "handle_playroom_alert lib msg w =
     (case decode (data msg) of
        Inl e \<Rightarrow> (Inl e, w)
      | Inr txt \<Rightarrow>
          (case PlayroomAlertPayload_model_validate_json lib txt of
             Inl exc \<Rightarrow> (Inr (), logger_error ''Invalid playroom alert received: %s'' [Exc exc] w)
           | Inr payload \<Rightarrow>
               session_scope
                 (\<lambda>session w1.
                    (case record_playroom_alert session w1 payload of
                       (Inl e, session', w2) \<Rightarrow> (Inl e, session', w2)
                     | (Inr row, session', w2) \<Rightarrow> (Inr (), session', w2)))
                 (logger_info ''Received playroom alert for room %s''
                    [Str (playroom_room_id payload)] w)))"

section \<open>Concrete inputs: the scenarios of the specification\<close>

text \<open>
  The closed theorems below need the library's answers at concrete inputs. This table
  gives them for the literals of the specification's scenarios, where the library reads
  \<open>"2024-01-01T00:00:00Z"\<close> as midnight UTC of that day and leaves the URL
  \<open>"https://x/e.mp4"\<close> as it is. On every other input the table answers \<open>None\<close>; that
  says nothing about the library, and no theorem uses the table there.
\<close>

definition scenario_lib :: pydantic_lib where
  "scenario_lib =
     \<lparr>str_as_float = (\<lambda>s. None),
      datetime_of_json =
        (\<lambda>j. case j of
               JStr s \<Rightarrow> (if s = ''2024-01-01T00:00:00Z''
                          then Some (Datetime 2024 1 1 0 0 0 0 (Some 0)) else None)
             | other \<Rightarrow> None),
      http_url_of_json =
        (\<lambda>j. case j of
               JStr s \<Rightarrow> (if s = ''https://x/e.mp4'' then Some ''https://x/e.mp4'' else None)
             | other \<Rightarrow> None)\<rparr>"

text \<open>
  An empty SQLite store, as the default \<open>database_url\<close> gives, whose clock shows the
  successive seconds of 2 January 2024 and whose identifiers are \<open>"id-"\<close> followed by
  as many \<open>"i"\<close> as identifiers were drawn before; \<open>faults\<close> are the outcomes of the
  coming writes.
\<close>

definition empty_world :: "bool list \<Rightarrow> world" where
  "empty_world faults =
     \<lparr>events = [], alerts = [], log = [],
      clock = (\<lambda>n. Datetime 2024 1 2 0 0 n 0 (Some 0)), clock_reads = 0,
      uuid4 = (\<lambda>n. ''id-'' @ replicate n (CHR ''i'')), uuids_drawn = 0,
      commit_faults = faults, column_datetime = sqlite_datetime\<rparr>"

definition litter_doc :: "string \<Rightarrow> string \<Rightarrow> pyfloat \<Rightarrow> pyfloat \<Rightarrow> (string \<times> json) list" where
  "litter_doc p ty d c =
     [(''pet_id'', JStr p), (''type'', JStr ty), (''ts'', JStr ''2024-01-01T00:00:00Z''),
      (''duration_s'', JNum d), (''conf'', JNum c), (''payload'', JObj [])]"

definition litter_msg :: "(string \<times> json) list \<Rightarrow> Msg" where
  "litter_msg kvs = \<lparr>subject = ''events.litter.device1'', data = Utf8 (Document (JObj kvs))\<rparr>"

definition playroom_doc :: "(string \<times> json) list" where
  "playroom_doc =
     [(''pet_id'', JStr ''p2''), (''room_id'', JStr ''r1''), (''kind'', JStr ''fight''),
      (''severity'', JStr ''high''), (''state'', JStr ''open''),
      (''evidence_url'', JStr ''https://x/e.mp4''), (''ts'', JStr ''2024-01-01T00:00:00Z'')]"

definition playroom_msg :: "(string \<times> json) list \<Rightarrow> Msg" where
  "playroom_msg kvs = \<lparr>subject = ''playroom.alerts.room1'', data = Utf8 (Document (JObj kvs))\<rparr>"

section \<open>Auxiliary facts\<close>

subsection \<open>Float comparisons\<close>

lemma float_ge_not_lt: "float_ge a b \<Longrightarrow> \<not> float_lt a b"
  by (cases a; cases b) (auto simp: float_ge_def)

lemma float_le_not_gt: "float_le a b \<Longrightarrow> \<not> float_gt a b"
  by (cases a; cases b) (auto simp: float_gt_def)

subsection \<open>Validation\<close>

lemma extra_forbidden_empty:
  "fst ` set kvs \<subseteq> set declared \<Longrightarrow> extra_forbidden declared kvs = []"
  by (auto simp: extra_forbidden_def filter_empty_conv)

lemma extra_forbidden_mem:
  "k \<in> fst ` set kvs \<Longrightarrow> k \<notin> set declared \<Longrightarrow>
   (k, Extra_forbidden) \<in> set (extra_forbidden declared kvs)"
  by (force simp: extra_forbidden_def)

lemma get_field_absent: "k \<notin> fst ` set kvs \<Longrightarrow> get_field kvs k = None"
  by (simp add: get_field_def map_of_eq_None_iff)

lemma LitterEventPayload_validate_extra:
  "extra_forbidden LitterEventPayload_fields kvs \<noteq> [] \<Longrightarrow>
   LitterEventPayload_validate lib (JObj kvs) = Inl (LitterEventPayload_errors lib kvs)"
  by (simp add: LitterEventPayload_validate_def split: sum.splits list.splits)

lemma PlayroomAlertPayload_validate_extra:
  "extra_forbidden PlayroomAlertPayload_fields kvs \<noteq> [] \<Longrightarrow>
   PlayroomAlertPayload_validate lib (JObj kvs) = Inl (PlayroomAlertPayload_errors lib kvs)"
  by (simp add: PlayroomAlertPayload_validate_def split: sum.splits list.splits)

text \<open>A document whose six declared members are well-formed, and that has no other
  member, validates to the payload of their values.\<close>

lemma LitterEventPayload_validate_well_formed:
  assumes "get_field kvs ''pet_id'' = Some (JStr pid)"
    and "get_field kvs ''type'' = Some (JStr ty)"
    and "get_field kvs ''ts'' = Some tsj" and "datetime_of_json lib tsj = Some t"
    and "get_field kvs ''duration_s'' = Some dj" and "validate_float lib dj = Inr d"
    and "get_field kvs ''conf'' = Some cj" and "validate_float lib cj = Inr c"
    and "get_field kvs ''payload'' = Some (JObj pl)"
    and "fst ` set kvs \<subseteq> set LitterEventPayload_fields"
  shows "LitterEventPayload_validate lib (JObj kvs) =
           Inr \<lparr>litter_pet_id = pid, litter_type = ty, litter_ts = t,
                litter_duration_s = d, litter_conf = c, litter_payload = pl\<rparr>"
  using assms
  by (simp add: LitterEventPayload_validate_def required_def validate_datetime_def
      extra_forbidden_empty)

subsection \<open>Writes\<close>

lemma insert_event_eq:
  "insert_event r w =
     (let i = (case event_id r of None \<Rightarrow> Some (uuid4 w (uuids_drawn w)) | Some u \<Rightarrow> Some u);
          w1 = (case event_id r of None \<Rightarrow> w\<lparr>uuids_drawn := Suc (uuids_drawn w)\<rparr> | Some u \<Rightarrow> w);
          c = (case event_created_at r of None \<Rightarrow> Some (clock w (clock_reads w)) | Some t \<Rightarrow> Some t);
          w2 = (case event_created_at r of None \<Rightarrow> w1\<lparr>clock_reads := Suc (clock_reads w)\<rparr>
                | Some t \<Rightarrow> w1);
          obj = r\<lparr>event_id := i, event_created_at := c\<rparr>
      in (obj, w2\<lparr>events := events w @ [event_row (column_datetime w) obj]\<rparr>))"
  by (simp add: insert_event_def utcnow_def new_uuid_def Let_def split: option.splits)

lemma insert_alert_eq:
  "insert_alert r w =
     (let i = (case alert_id r of None \<Rightarrow> Some (uuid4 w (uuids_drawn w)) | Some u \<Rightarrow> Some u);
          w1 = (case alert_id r of None \<Rightarrow> w\<lparr>uuids_drawn := Suc (uuids_drawn w)\<rparr> | Some u \<Rightarrow> w);
          c = (case alert_created_at r of None \<Rightarrow> Some (clock w (clock_reads w)) | Some t \<Rightarrow> Some t);
          w2 = (case alert_created_at r of None \<Rightarrow> w1\<lparr>clock_reads := Suc (clock_reads w)\<rparr>
                | Some t \<Rightarrow> w1);
          obj = r\<lparr>alert_id := i, alert_created_at := c\<rparr>
      in (obj, w2\<lparr>alerts := alerts w @ [alert_row (column_datetime w) obj]\<rparr>))"
  by (simp add: insert_alert_def utcnow_def new_uuid_def Let_def split: option.splits)

lemma flush_event_one:
  "flush [EventObj r] w = ([EventObj (fst (insert_event r w))], snd (insert_event r w))"
  by (simp split: prod.splits)

lemma flush_alert_one:
  "flush [AlertObj r] w = ([AlertObj (fst (insert_alert r w))], snd (insert_alert r w))"
  by (simp split: prod.splits)

lemma flush_snoc_alert:
  "flush (objs @ [AlertObj r]) w =
     (fst (flush objs w) @ [AlertObj (fst (insert_alert r (snd (flush objs w))))],
      snd (insert_alert r (snd (flush objs w))))"
proof (induction objs arbitrary: w)
  case Nil
  show ?case by (simp split: prod.splits)
next
  case (Cons obj objs)
  show ?case by (cases obj) (simp_all add: Cons.IH split: prod.splits)
qed

lemma world_no_faults: "commit_faults w = [] \<Longrightarrow> w\<lparr>commit_faults := []\<rparr> = w"
  by (cases w) simp

lemma session_commit_one:
  "session_commit [obj] w =
     (case commit_faults w of
        True # fs \<Rightarrow> (Inl SQLAlchemyError, [obj], w\<lparr>commit_faults := fs\<rparr>)
      | other \<Rightarrow> (Inr (fst (flush [obj] (w\<lparr>commit_faults := tl (commit_faults w)\<rparr>))), [],
                  snd (flush [obj] (w\<lparr>commit_faults := tl (commit_faults w)\<rparr>))))"
  by (simp add: session_commit_def world_no_faults split: list.splits bool.splits prod.splits)

lemmas run_defs = session_scope_def session_commit_one session_add_def session_rollback_def
  record_litter_event_def record_playroom_alert_def create_alert_from_event_def
  flush_event_one flush_alert_one insert_event_eq insert_alert_eq event_row_def alert_row_def
  utcnow_def logger_error_def logger_info_def session_commit_def

text \<open>A valid litter message whose first write is not refused leaves its event in the
  table, with the payload's values (its \<open>ts\<close> as the store keeps it), whatever happens to
  the alert afterwards.\<close>

lemma litter_event_stored:
  assumes d: "data msg = Utf8 txt"
    and v: "LitterEventPayload_model_validate_json lib txt = Inr p"
    and ok: "\<not> (\<exists>fs. commit_faults w = True # fs)"
  shows "\<exists>row. events (snd (handle_litter_event S lib msg w)) = events w @ [row] \<and>
           event_source row = subject msg \<and>
           event_pet_id row = litter_pet_id p \<and>
           event_type row = litter_type p \<and>
           event_ts row = column_datetime w (litter_ts p) \<and>
           event_duration_s row = Some (litter_duration_s p) \<and>
           event_conf row = Some (litter_conf p) \<and>
           event_payload_json row = litter_payload p"
  using ok
  by (auto simp: handle_litter_event_def decode_def d v run_defs Let_def
      split: bool.splits list.splits)

text \<open>A body that is not UTF-8 is not caught by either handler: the decoding error
  leaves the handler, and the world is as it was.\<close>

lemma undecodable_body_raises:
  "data msg = Undecodable \<Longrightarrow>
   handle_litter_event S lib msg w = (Inl UnicodeDecodeError, w) \<and>
   handle_playroom_alert lib msg w = (Inl UnicodeDecodeError, w)"
  by (simp add: handle_litter_event_def handle_playroom_alert_def decode_def)

subsection \<open>The scenarios\<close>

lemma scenario_litter_valid:
  "LitterEventPayload_model_validate_json scenario_lib (Document (JObj (litter_doc pid ty d c))) =
     Inr \<lparr>litter_pet_id = pid, litter_type = ty,
          litter_ts = Datetime 2024 1 1 0 0 0 0 (Some 0),
          litter_duration_s = d, litter_conf = c, litter_payload = []\<rparr>"
  by (simp add: LitterEventPayload_model_validate_json_def LitterEventPayload_validate_def
      required_def get_field_def validate_datetime_def extra_forbidden_def
      LitterEventPayload_fields_def scenario_lib_def litter_doc_def)

lemma scenario_playroom_valid:
  "PlayroomAlertPayload_model_validate_json scenario_lib (Document (JObj playroom_doc)) =
     Inr \<lparr>playroom_pet_id = ''p2'', playroom_room_id = ''r1'', playroom_kind = ''fight'',
          playroom_severity = ''high'', playroom_state = ''open'',
          playroom_evidence_url = ''https://x/e.mp4'',
          playroom_ts = Datetime 2024 1 1 0 0 0 0 (Some 0)\<rparr>"
  by (simp add: PlayroomAlertPayload_model_validate_json_def PlayroomAlertPayload_validate_def
      required_def get_field_def validate_datetime_def validate_http_url_def extra_forbidden_def
      PlayroomAlertPayload_fields_def scenario_lib_def playroom_doc_def)

lemma litter_msg_data: "data (litter_msg kvs) = Utf8 (Document (JObj kvs))"
  by (simp add: litter_msg_def)

lemma playroom_msg_data: "data (playroom_msg kvs) = Utf8 (Document (JObj kvs))"
  by (simp add: playroom_msg_def)

lemmas scenario_run_defs = handle_litter_event_def handle_playroom_alert_def decode_def
  scenario_litter_valid scenario_playroom_valid run_defs float_gt_def
  litter_msg_def playroom_msg_def empty_world_def default_settings_def sqlite_datetime_def Let_def

section \<open>The anomaly rule\<close>

text \<open>
  C1. For a validated litter event and thresholds \<open>td\<close> (duration) and \<open>tc\<close>
  (confidence), when the store refuses neither of the two writes: if \<open>conf < tc\<close> the
  handler adds exactly one alert, of severity \<open>"high"\<close>, whatever the duration; if
  \<open>conf >= tc\<close> and \<open>duration_s > td\<close> it adds exactly one alert, of severity
  \<open>"moderate"\<close>; if \<open>conf >= tc\<close> and \<open>duration_s <= td\<close> it adds none.
\<close>

theorem litter_alert_severity_policy:
  assumes d: "data msg = Utf8 txt"
    and v: "LitterEventPayload_model_validate_json lib txt = Inr p"
    and ok: "True \<notin> set (take 2 (commit_faults w))"
  shows "(float_lt (litter_conf p) (litter_conf_threshold S) \<longrightarrow>
            (\<exists>a. alerts (snd (handle_litter_event S lib msg w)) = alerts w @ [a] \<and>
                 alert_severity a = ''high'')) \<and>
         (float_ge (litter_conf p) (litter_conf_threshold S) \<and>
          float_gt (litter_duration_s p) (litter_duration_threshold S) \<longrightarrow>
            (\<exists>a. alerts (snd (handle_litter_event S lib msg w)) = alerts w @ [a] \<and>
                 alert_severity a = ''moderate'')) \<and>
         (float_ge (litter_conf p) (litter_conf_threshold S) \<and>
          float_le (litter_duration_s p) (litter_duration_threshold S) \<longrightarrow>
            alerts (snd (handle_litter_event S lib msg w)) = alerts w)"
proof -
  have f1: "\<not> (\<exists>fs. commit_faults w = True # fs)"
    using ok by auto
  have f2: "\<not> (\<exists>fs. tl (commit_faults w) = True # fs)"
    using ok by (cases "commit_faults w") (auto simp: numeral_2_eq_2 split: list.splits)
  show ?thesis
    using f1 f2
    by (auto simp: handle_litter_event_def decode_def d v run_defs Let_def
        dest: float_ge_not_lt float_le_not_gt split: bool.splits list.splits)
qed

text \<open>The three end-to-end scenarios of the specification, on the default thresholds:
  confidence 0.1, duration 200 with confidence 0.9, and duration 50 with confidence 0.9.\<close>

theorem litter_alert_severity_policy_witness:
  "(\<exists>a. alerts (snd (handle_litter_event default_settings scenario_lib
            (litter_msg (litter_doc ''p1'' ''use'' (Finite 200) (Finite 0.1))) (empty_world []))) =
          alerts (empty_world []) @ [a] \<and> alert_severity a = ''high'') \<and>
   (\<exists>a. alerts (snd (handle_litter_event default_settings scenario_lib
            (litter_msg (litter_doc ''p1'' ''use'' (Finite 200) (Finite 0.9))) (empty_world []))) =
          alerts (empty_world []) @ [a] \<and> alert_severity a = ''moderate'') \<and>
   alerts (snd (handle_litter_event default_settings scenario_lib
            (litter_msg (litter_doc ''p1'' ''use'' (Finite 50) (Finite 0.9))) (empty_world []))) =
     alerts (empty_world [])"
proof -
  have ok: "True \<notin> set (take 2 (commit_faults (empty_world [])))"
    by (simp add: empty_world_def)
  note rule = litter_alert_severity_policy [OF litter_msg_data scenario_litter_valid ok,
      of _ _ _ _ default_settings]
  have high: "float_lt (Finite 0.1) (litter_conf_threshold default_settings)"
    by (simp add: default_settings_def)
  have moderate: "float_ge (Finite 0.9) (litter_conf_threshold default_settings) \<and>
      float_gt (Finite 200) (litter_duration_threshold default_settings)"
    by (simp add: default_settings_def float_ge_def float_gt_def)
  have none: "float_ge (Finite 0.9) (litter_conf_threshold default_settings) \<and>
      float_le (Finite 50) (litter_duration_threshold default_settings)"
    by (simp add: default_settings_def float_ge_def)
  show ?thesis
    using rule [of "''p1''" "''use''" "Finite 200" "Finite 0.1"]
      rule [of "''p1''" "''use''" "Finite 200" "Finite 0.9"]
      rule [of "''p1''" "''use''" "Finite 50" "Finite 0.9"] high moderate none
    by simp
qed

section \<open>What the litter schema accepts\<close>

text \<open>
  C2, as the claim states it, fails: the message of scenario 1 with \<open>duration_s = -5\<close>
  validates, and its event is stored with that duration.
\<close>

theorem negative_duration_accepted:
  "LitterEventPayload_model_validate_json scenario_lib
     (Document (JObj (litter_doc ''p1'' ''use'' (Finite (- 5)) (Finite 0.9)))) =
     Inr \<lparr>litter_pet_id = ''p1'', litter_type = ''use'',
          litter_ts = Datetime 2024 1 1 0 0 0 0 (Some 0),
          litter_duration_s = Finite (- 5), litter_conf = Finite 0.9, litter_payload = []\<rparr> \<and>
   events (snd (handle_litter_event default_settings scenario_lib
     (litter_msg (litter_doc ''p1'' ''use'' (Finite (- 5)) (Finite 0.9))) (empty_world []))) =
     [\<lparr>event_id = Some ''id-'', event_source = ''events.litter.device1'',
       event_pet_id = ''p1'', event_type = ''use'',
       event_ts = Datetime 2024 1 1 0 0 0 0 None,
       event_duration_s = Some (Finite (- 5)), event_conf = Some (Finite 0.9),
       event_payload_json = [],
       event_created_at = Some (Datetime 2024 1 2 0 0 0 0 None)\<rparr>]"
  by (simp add: scenario_run_defs)

text \<open>
  C2, amended. A litter message whose \<open>duration_s\<close> is a negative number and whose
  other members are well-formed passes validation, the schema putting no bound on
  \<open>duration_s\<close>; when the store does not refuse the write, its event is stored with that
  negative duration.
\<close>

theorem negative_duration_validates:
  assumes "get_field kvs ''pet_id'' = Some (JStr pid)"
    and "get_field kvs ''type'' = Some (JStr ty)"
    and "get_field kvs ''ts'' = Some tsj" and "datetime_of_json lib tsj = Some t"
    and "get_field kvs ''duration_s'' = Some (JNum d)" and "float_lt d (Finite 0)"
    and "get_field kvs ''conf'' = Some cj" and "validate_float lib cj = Inr c"
    and "get_field kvs ''payload'' = Some (JObj pl)"
    and "fst ` set kvs \<subseteq> set LitterEventPayload_fields"
    and "\<not> (\<exists>fs. commit_faults w = True # fs)"
  shows "LitterEventPayload_model_validate_json lib (Document (JObj kvs)) =
           Inr \<lparr>litter_pet_id = pid, litter_type = ty, litter_ts = t,
                litter_duration_s = d, litter_conf = c, litter_payload = pl\<rparr> \<and>
         (\<exists>row. events (snd (handle_litter_event S lib
                    \<lparr>subject = subj, data = Utf8 (Document (JObj kvs))\<rparr> w)) = events w @ [row] \<and>
                event_duration_s row = Some d)"
proof -
  have v: "LitterEventPayload_model_validate_json lib (Document (JObj kvs)) =
           Inr \<lparr>litter_pet_id = pid, litter_type = ty, litter_ts = t,
                litter_duration_s = d, litter_conf = c, litter_payload = pl\<rparr>"
    using assms
    by (simp add: LitterEventPayload_model_validate_json_def
        LitterEventPayload_validate_well_formed [where dj = "JNum d"])
  have m: "data \<lparr>subject = subj, data = Utf8 (Document (JObj kvs))\<rparr> = Utf8 (Document (JObj kvs))"
    by simp
  from litter_event_stored [OF m v assms(11), of S] v show ?thesis
    by auto
qed

theorem negative_duration_validates_witness:
  "LitterEventPayload_model_validate_json scenario_lib
     (Document (JObj (litter_doc ''p1'' ''use'' (Finite (- 5)) (Finite 0.9)))) =
     Inr \<lparr>litter_pet_id = ''p1'', litter_type = ''use'',
          litter_ts = Datetime 2024 1 1 0 0 0 0 (Some 0),
          litter_duration_s = Finite (- 5), litter_conf = Finite 0.9, litter_payload = []\<rparr> \<and>
   (\<exists>row. events (snd (handle_litter_event default_settings scenario_lib
       \<lparr>subject = ''events.litter.device1'',
        data = Utf8 (Document (JObj (litter_doc ''p1'' ''use'' (Finite (- 5)) (Finite 0.9))))\<rparr>
       (empty_world []))) = events (empty_world []) @ [row] \<and>
     event_duration_s row = Some (Finite (- 5)))"
  using negative_duration_validates [of "litter_doc ''p1'' ''use'' (Finite (- 5)) (Finite 0.9)"
      "''p1''" "''use''" "JStr ''2024-01-01T00:00:00Z''" scenario_lib
      "Datetime 2024 1 1 0 0 0 0 (Some 0)" "Finite (- 5)" "JNum (Finite 0.9)" "Finite 0.9" "[]"
      "empty_world []" default_settings "''events.litter.device1''"]
  by (simp add: get_field_def litter_doc_def scenario_lib_def LitterEventPayload_fields_def
      empty_world_def)

text \<open>
  C3, as the claim states it, fails: the message of scenario 1 validates with an empty
  \<open>pet_id\<close>, and it validates with an empty \<open>type\<close>.
\<close>

theorem empty_pet_id_or_type_accepted:
  "LitterEventPayload_model_validate_json scenario_lib
     (Document (JObj (litter_doc [] ''use'' (Finite 200) (Finite 0.9)))) =
     Inr \<lparr>litter_pet_id = [], litter_type = ''use'',
          litter_ts = Datetime 2024 1 1 0 0 0 0 (Some 0),
          litter_duration_s = Finite 200, litter_conf = Finite 0.9, litter_payload = []\<rparr> \<and>
   LitterEventPayload_model_validate_json scenario_lib
     (Document (JObj (litter_doc ''p1'' [] (Finite 200) (Finite 0.9)))) =
     Inr \<lparr>litter_pet_id = ''p1'', litter_type = [],
          litter_ts = Datetime 2024 1 1 0 0 0 0 (Some 0),
          litter_duration_s = Finite 200, litter_conf = Finite 0.9, litter_payload = []\<rparr> \<and>
   map event_pet_id (events (snd (handle_litter_event default_settings scenario_lib
     (litter_msg (litter_doc [] ''use'' (Finite 200) (Finite 0.9))) (empty_world [])))) = [[]]"
  by (simp add: scenario_run_defs)

text \<open>
  C3, amended. A litter message in which \<open>pet_id\<close> or \<open>type\<close> is the empty string
  and whose members are otherwise well-formed passes validation, the schema asking only
  that the two be strings; when the store does not refuse the write, its event is stored
  with them as they are.
\<close>

theorem empty_strings_validate:
  assumes "get_field kvs ''pet_id'' = Some (JStr pid)"
    and "get_field kvs ''type'' = Some (JStr ty)"
    and "pid = [] \<or> ty = []"
    and "get_field kvs ''ts'' = Some tsj" and "datetime_of_json lib tsj = Some t"
    and "get_field kvs ''duration_s'' = Some dj" and "validate_float lib dj = Inr d"
    and "get_field kvs ''conf'' = Some cj" and "validate_float lib cj = Inr c"
    and "get_field kvs ''payload'' = Some (JObj pl)"
    and "fst ` set kvs \<subseteq> set LitterEventPayload_fields"
    and "\<not> (\<exists>fs. commit_faults w = True # fs)"
  shows "LitterEventPayload_model_validate_json lib (Document (JObj kvs)) =
           Inr \<lparr>litter_pet_id = pid, litter_type = ty, litter_ts = t,
                litter_duration_s = d, litter_conf = c, litter_payload = pl\<rparr> \<and>
         (\<exists>row. events (snd (handle_litter_event S lib
                    \<lparr>subject = subj, data = Utf8 (Document (JObj kvs))\<rparr> w)) = events w @ [row] \<and>
                event_pet_id row = pid \<and> event_type row = ty)"
proof -
  have v: "LitterEventPayload_model_validate_json lib (Document (JObj kvs)) =
           Inr \<lparr>litter_pet_id = pid, litter_type = ty, litter_ts = t,
                litter_duration_s = d, litter_conf = c, litter_payload = pl\<rparr>"
    using assms
    by (simp add: LitterEventPayload_model_validate_json_def
        LitterEventPayload_validate_well_formed [where dj = dj and cj = cj])
  have m: "data \<lparr>subject = subj, data = Utf8 (Document (JObj kvs))\<rparr> = Utf8 (Document (JObj kvs))"
    by simp
  from litter_event_stored [OF m v assms(12), of S] v show ?thesis
    by auto
qed

theorem empty_strings_validate_witness:
  "LitterEventPayload_model_validate_json scenario_lib
     (Document (JObj (litter_doc [] [] (Finite 200) (Finite 0.9)))) =
     Inr \<lparr>litter_pet_id = [], litter_type = [],
          litter_ts = Datetime 2024 1 1 0 0 0 0 (Some 0),
          litter_duration_s = Finite 200, litter_conf = Finite 0.9, litter_payload = []\<rparr> \<and>
   (\<exists>row. events (snd (handle_litter_event default_settings scenario_lib
       \<lparr>subject = ''events.litter.device1'',
        data = Utf8 (Document (JObj (litter_doc [] [] (Finite 200) (Finite 0.9))))\<rparr>
       (empty_world []))) = events (empty_world []) @ [row] \<and>
     event_pet_id row = [] \<and> event_type row = [])"
  using empty_strings_validate [of "litter_doc [] [] (Finite 200) (Finite 0.9)"
      "[]" "[]" "JStr ''2024-01-01T00:00:00Z''" scenario_lib
      "Datetime 2024 1 1 0 0 0 0 (Some 0)" "JNum (Finite 200)" "Finite 200"
      "JNum (Finite 0.9)" "Finite 0.9" "[]"
      "empty_world []" default_settings "''events.litter.device1''"]
  by (simp add: get_field_def litter_doc_def scenario_lib_def LitterEventPayload_fields_def
      empty_world_def)

text \<open>
  C4, as the claim states it, fails: the message of scenario 1 without its \<open>payload\<close>
  member does not validate; the one error is that \<open>payload\<close> is missing.
\<close>

theorem omitted_payload_rejected:
  "LitterEventPayload_model_validate_json scenario_lib
     (Document (JObj [(''pet_id'', JStr ''p1''), (''type'', JStr ''use''),
        (''ts'', JStr ''2024-01-01T00:00:00Z''), (''duration_s'', JNum (Finite 200)),
        (''conf'', JNum (Finite 0.9))])) = Inl [(''payload'', Missing)]"
  by (simp add: LitterEventPayload_model_validate_json_def LitterEventPayload_validate_def
      LitterEventPayload_errors_def required_def get_field_def line_of_def validate_datetime_def
      extra_forbidden_def LitterEventPayload_fields_def scenario_lib_def)

text \<open>
  C4, amended. A litter message that omits the \<open>payload\<close> member fails validation,
  with the error that \<open>payload\<close> is missing, whatever its other members are: the field
  has no default. The handler logs the error and returns; nothing is stored.
\<close>

theorem payload_is_required:
  assumes a: "''payload'' \<notin> fst ` set kvs"
  shows "\<exists>errs. LitterEventPayload_model_validate_json lib (Document (JObj kvs)) = Inl errs \<and>
           (''payload'', Missing) \<in> set errs \<and>
           handle_litter_event S lib \<lparr>subject = subj, data = Utf8 (Document (JObj kvs))\<rparr> w =
             (Inr (), logger_error ''Invalid litter event received: %s'' [Exc errs] w)"
proof -
  have r: "required kvs ''payload'' validate_dict = Inl Missing"
    by (simp add: required_def get_field_absent [OF a])
  have v: "LitterEventPayload_model_validate_json lib (Document (JObj kvs)) =
             Inl (LitterEventPayload_errors lib kvs)"
    by (simp add: LitterEventPayload_model_validate_json_def LitterEventPayload_validate_def r
        split: sum.splits)
  have "(''payload'', Missing) \<in> set (LitterEventPayload_errors lib kvs)"
    by (simp add: LitterEventPayload_errors_def r line_of_def)
  then show ?thesis
    by (simp add: v handle_litter_event_def decode_def)
qed

theorem payload_is_required_witness:
  "\<exists>errs. LitterEventPayload_model_validate_json scenario_lib
       (Document (JObj [(''pet_id'', JStr ''p1''), (''type'', JStr ''use''),
          (''ts'', JStr ''2024-01-01T00:00:00Z''), (''duration_s'', JNum (Finite 200)),
          (''conf'', JNum (Finite 0.9))])) = Inl errs \<and>
     (''payload'', Missing) \<in> set errs \<and>
     handle_litter_event default_settings scenario_lib
       \<lparr>subject = ''events.litter.device1'',
        data = Utf8 (Document (JObj [(''pet_id'', JStr ''p1''), (''type'', JStr ''use''),
          (''ts'', JStr ''2024-01-01T00:00:00Z''), (''duration_s'', JNum (Finite 200)),
          (''conf'', JNum (Finite 0.9))]))\<rparr> (empty_world []) =
       (Inr (), logger_error ''Invalid litter event received: %s'' [Exc errs] (empty_world []))"
proof -
  have a: "''payload'' \<notin> fst ` set [(''pet_id'', JStr ''p1''), (''type'', JStr ''use''),
          (''ts'', JStr ''2024-01-01T00:00:00Z''), (''duration_s'', JNum (Finite 200)),
          (''conf'', JNum (Finite 0.9))]"
    by simp
  show ?thesis
    by (rule payload_is_required [OF a])
qed

section \<open>Messages that do not validate\<close>

text \<open>
  Where the body of a litter message decodes as UTF-8 and the text fails validation, be
  it text that is not JSON or a document that violates the schema, the handler logs the
  error and returns without raising; the tables are as they were, so no event is stored
  and no alert created.
\<close>

theorem invalid_litter_message_dropped:
  assumes d: "data msg = Utf8 txt"
    and v: "LitterEventPayload_model_validate_json lib txt = Inl errs"
  shows "handle_litter_event S lib msg w =
           (Inr (), w\<lparr>log := log w @
              [LogRecord ERROR ''Invalid litter event received: %s'' [Exc errs]]\<rparr>)"
  by (simp add: handle_litter_event_def decode_def d v logger_error_def)

text \<open>Scenario 4, malformed JSON on \<open>events.litter.device1\<close>, and a document that lacks
  \<open>conf\<close>.\<close>

theorem invalid_litter_message_dropped_witness:
  "handle_litter_event default_settings scenario_lib
     \<lparr>subject = ''events.litter.device1'', data = Utf8 Malformed\<rparr> (empty_world []) =
     (Inr (), (empty_world [])\<lparr>log := log (empty_world []) @
        [LogRecord ERROR ''Invalid litter event received: %s'' [Exc [([], Json_invalid)]]]\<rparr>) \<and>
   handle_litter_event default_settings scenario_lib
     \<lparr>subject = ''events.litter.device1'',
      data = Utf8 (Document (JObj [(''pet_id'', JStr ''p1''), (''type'', JStr ''use''),
          (''ts'', JStr ''2024-01-01T00:00:00Z''), (''duration_s'', JNum (Finite 200)),
          (''payload'', JObj [])]))\<rparr> (empty_world []) =
     (Inr (), (empty_world [])\<lparr>log := log (empty_world []) @
        [LogRecord ERROR ''Invalid litter event received: %s'' [Exc [(''conf'', Missing)]]]\<rparr>)"
proof -
  have v1: "LitterEventPayload_model_validate_json scenario_lib Malformed = Inl [([], Json_invalid)]"
    by (simp add: LitterEventPayload_model_validate_json_def)
  have v2: "LitterEventPayload_model_validate_json scenario_lib
      (Document (JObj [(''pet_id'', JStr ''p1''), (''type'', JStr ''use''),
          (''ts'', JStr ''2024-01-01T00:00:00Z''), (''duration_s'', JNum (Finite 200)),
          (''payload'', JObj [])])) = Inl [(''conf'', Missing)]"
    by (simp add: LitterEventPayload_model_validate_json_def LitterEventPayload_validate_def
      LitterEventPayload_errors_def required_def get_field_def line_of_def validate_datetime_def
      extra_forbidden_def LitterEventPayload_fields_def scenario_lib_def)
  have d: "\<And>s b. data \<lparr>subject = s, data = b\<rparr> = b"
    by simp
  show ?thesis
    using invalid_litter_message_dropped [OF d v1] invalid_litter_message_dropped [OF d v2]
    by simp
qed

text \<open>
  C5 asks this of every litter message whose bytes fail validation. The handler does not
  do it for bytes that are not UTF-8, which are not JSON either: \<open>msg.data.decode\<close>
  stands inside the \<open>try\<close>, but the \<open>except\<close> names \<open>ValidationError\<close> only, so on the
  subject \<open>events.litter.device1\<close> such a body makes the handler raise
  \<open>UnicodeDecodeError\<close>, and nothing is logged. The text that is not JSON, beside it,
  is logged and dropped.
\<close>

theorem undecodable_litter_body_not_dropped:
  "handle_litter_event default_settings scenario_lib
     \<lparr>subject = ''events.litter.device1'', data = Undecodable\<rparr> (empty_world []) =
     (Inl UnicodeDecodeError, empty_world []) \<and>
   log (empty_world []) = [] \<and>
   handle_litter_event default_settings scenario_lib
     \<lparr>subject = ''events.litter.device1'', data = Utf8 Malformed\<rparr> (empty_world []) =
     (Inr (), logger_error ''Invalid litter event received: %s'' [Exc [([], Json_invalid)]]
        (empty_world []))"
  by (simp add: handle_litter_event_def decode_def LitterEventPayload_model_validate_json_def
      empty_world_def)

text \<open>
  C9. Both schemas forbid unknown members: a litter event or a playroom alert whose
  document has a member outside the declared fields fails validation, with an error
  naming that member, whatever the other members are; the handler logs the error and
  returns, and nothing is stored.
\<close>

theorem unknown_field_rejected:
  assumes k: "k \<in> fst ` set kvs"
  shows "(k \<notin> set LitterEventPayload_fields \<longrightarrow>
            (\<exists>errs. LitterEventPayload_model_validate_json lib (Document (JObj kvs)) = Inl errs \<and>
               (k, Extra_forbidden) \<in> set errs \<and>
               handle_litter_event S lib \<lparr>subject = subj, data = Utf8 (Document (JObj kvs))\<rparr> w =
                 (Inr (), logger_error ''Invalid litter event received: %s'' [Exc errs] w))) \<and>
         (k \<notin> set PlayroomAlertPayload_fields \<longrightarrow>
            (\<exists>errs. PlayroomAlertPayload_model_validate_json lib (Document (JObj kvs)) = Inl errs \<and>
               (k, Extra_forbidden) \<in> set errs \<and>
               handle_playroom_alert lib \<lparr>subject = subj, data = Utf8 (Document (JObj kvs))\<rparr> w =
                 (Inr (), logger_error ''Invalid playroom alert received: %s'' [Exc errs] w)))"
proof (intro conjI impI)
  assume n: "k \<notin> set LitterEventPayload_fields"
  from extra_forbidden_mem [OF k n]
  have m: "(k, Extra_forbidden) \<in> set (extra_forbidden LitterEventPayload_fields kvs)" .
  then have ne: "extra_forbidden LitterEventPayload_fields kvs \<noteq> []" by auto
  have v: "LitterEventPayload_model_validate_json lib (Document (JObj kvs)) =
             Inl (LitterEventPayload_errors lib kvs)"
    by (simp add: LitterEventPayload_model_validate_json_def
        LitterEventPayload_validate_extra [OF ne])
  have "(k, Extra_forbidden) \<in> set (LitterEventPayload_errors lib kvs)"
    using m by (simp add: LitterEventPayload_errors_def)
  then show "\<exists>errs. LitterEventPayload_model_validate_json lib (Document (JObj kvs)) = Inl errs \<and>
               (k, Extra_forbidden) \<in> set errs \<and>
               handle_litter_event S lib \<lparr>subject = subj, data = Utf8 (Document (JObj kvs))\<rparr> w =
                 (Inr (), logger_error ''Invalid litter event received: %s'' [Exc errs] w)"
    by (simp add: v handle_litter_event_def decode_def)
next
  assume n: "k \<notin> set PlayroomAlertPayload_fields"
  from extra_forbidden_mem [OF k n]
  have m: "(k, Extra_forbidden) \<in> set (extra_forbidden PlayroomAlertPayload_fields kvs)" .
  then have ne: "extra_forbidden PlayroomAlertPayload_fields kvs \<noteq> []" by auto
  have v: "PlayroomAlertPayload_model_validate_json lib (Document (JObj kvs)) =
             Inl (PlayroomAlertPayload_errors lib kvs)"
    by (simp add: PlayroomAlertPayload_model_validate_json_def
        PlayroomAlertPayload_validate_extra [OF ne])
  have "(k, Extra_forbidden) \<in> set (PlayroomAlertPayload_errors lib kvs)"
    using m by (simp add: PlayroomAlertPayload_errors_def)
  then show "\<exists>errs. PlayroomAlertPayload_model_validate_json lib (Document (JObj kvs)) = Inl errs \<and>
               (k, Extra_forbidden) \<in> set errs \<and>
               handle_playroom_alert lib \<lparr>subject = subj, data = Utf8 (Document (JObj kvs))\<rparr> w =
                 (Inr (), logger_error ''Invalid playroom alert received: %s'' [Exc errs] w)"
    by (simp add: v handle_playroom_alert_def decode_def)
qed

text \<open>The messages of scenarios 1 and 5, each with a member \<open>"note"\<close> added.\<close>

theorem unknown_field_rejected_witness:
  "(\<exists>errs. LitterEventPayload_model_validate_json scenario_lib
       (Document (JObj (litter_doc ''p1'' ''use'' (Finite 200) (Finite 0.9) @ [(''note'', JNull)]))) =
         Inl errs \<and>
      (''note'', Extra_forbidden) \<in> set errs \<and>
      handle_litter_event default_settings scenario_lib
        \<lparr>subject = ''events.litter.device1'',
         data = Utf8 (Document (JObj (litter_doc ''p1'' ''use'' (Finite 200) (Finite 0.9) @
                  [(''note'', JNull)])))\<rparr> (empty_world []) =
        (Inr (), logger_error ''Invalid litter event received: %s'' [Exc errs] (empty_world []))) \<and>
   (\<exists>errs. PlayroomAlertPayload_model_validate_json scenario_lib
       (Document (JObj (playroom_doc @ [(''note'', JNull)]))) = Inl errs \<and>
      (''note'', Extra_forbidden) \<in> set errs \<and>
      handle_playroom_alert scenario_lib
        \<lparr>subject = ''playroom.alerts.room1'',
         data = Utf8 (Document (JObj (playroom_doc @ [(''note'', JNull)])))\<rparr> (empty_world []) =
        (Inr (), logger_error ''Invalid playroom alert received: %s'' [Exc errs] (empty_world [])))"
proof -
  have k1: "''note'' \<in> fst ` set (litter_doc ''p1'' ''use'' (Finite 200) (Finite 0.9) @ [(''note'', JNull)])"
    by simp
  have k2: "''note'' \<in> fst ` set (playroom_doc @ [(''note'', JNull)])"
    by simp
  have n1: "''note'' \<notin> set LitterEventPayload_fields"
    by (simp add: LitterEventPayload_fields_def)
  have n2: "''note'' \<notin> set PlayroomAlertPayload_fields"
    by (simp add: PlayroomAlertPayload_fields_def)
  show ?thesis
    using unknown_field_rejected [OF k1, of scenario_lib default_settings
        "''events.litter.device1''" "empty_world []"]
      unknown_field_rejected [OF k2, of scenario_lib default_settings
        "''playroom.alerts.room1''" "empty_world []"] n1 n2
    by blast
qed

section \<open>The alerts that the two routes store\<close>

text \<open>
  C6. Whatever the message, the litter handler adds at most one alert to the table, and
  an alert it adds has kind \<open>"litter-anomaly"\<close>, severity \<open>"moderate"\<close> or \<open>"high"\<close>,
  state \<open>"open"\<close>, no \<open>evidence_url\<close> and no \<open>room_id\<close>.
\<close>

theorem litter_alert_shape:
  "\<exists>new. alerts (snd (handle_litter_event S lib msg w)) = alerts w @ new \<and>
         length new \<le> 1 \<and>
         (\<forall>a \<in> set new.
            alert_kind a = ''litter-anomaly'' \<and>
            alert_severity a \<in> {''moderate'', ''high''} \<and>
            alert_state a = ''open'' \<and>
            alert_evidence_url a = None \<and>
            alert_room_id a = None)"
  by (auto simp: handle_litter_event_def decode_def run_defs Let_def
      split: bool.splits list.splits sum.splits bytes.splits)

text \<open>Scenario 2: the one alert that the handler adds has this shape.\<close>

theorem litter_alert_shape_witness:
  "\<exists>a. alerts (snd (handle_litter_event default_settings scenario_lib
          (litter_msg (litter_doc ''p1'' ''use'' (Finite 200) (Finite 0.1))) (empty_world []))) = [a] \<and>
        alert_kind a = ''litter-anomaly'' \<and>
        alert_severity a \<in> {''moderate'', ''high''} \<and>
        alert_state a = ''open'' \<and>
        alert_evidence_url a = None \<and>
        alert_room_id a = None"
proof -
  let ?run = "handle_litter_event default_settings scenario_lib
          (litter_msg (litter_doc ''p1'' ''use'' (Finite 200) (Finite 0.1))) (empty_world [])"
  have one: "length (alerts (snd ?run)) = 1"
    by (simp add: scenario_run_defs)
  have none: "alerts (empty_world []) = []"
    by (simp add: empty_world_def)
  from litter_alert_shape [of default_settings scenario_lib
      "litter_msg (litter_doc ''p1'' ''use'' (Finite 200) (Finite 0.1))" "empty_world []"]
  obtain new where new: "alerts (snd ?run) = alerts (empty_world []) @ new"
    and shape: "\<forall>a \<in> set new.
            alert_kind a = ''litter-anomaly'' \<and>
            alert_severity a \<in> {''moderate'', ''high''} \<and>
            alert_state a = ''open'' \<and>
            alert_evidence_url a = None \<and>
            alert_room_id a = None"
    by blast
  from one new none obtain a where a: "new = [a]"
    by (cases new) auto
  with shape new none show ?thesis
    by auto
qed

text \<open>
  For a valid playroom-alert payload, when the store does not refuse the write, the
  handler returns having added exactly one alert, whose \<open>pet_id\<close>, \<open>room_id\<close>, \<open>kind\<close>,
  \<open>severity\<close>, \<open>state\<close> and \<open>evidence_url\<close> are the payload's, and whose \<open>ts\<close> is the
  payload's as the store keeps it; the events table is untouched. The handler takes no
  thresholds: no rule is applied on this route.
\<close>

theorem playroom_alert_stored:
  assumes d: "data msg = Utf8 txt"
    and v: "PlayroomAlertPayload_model_validate_json lib txt = Inr p"
    and ok: "\<not> (\<exists>fs. commit_faults w = True # fs)"
  shows "fst (handle_playroom_alert lib msg w) = Inr () \<and>
         events (snd (handle_playroom_alert lib msg w)) = events w \<and>
         (\<exists>a. alerts (snd (handle_playroom_alert lib msg w)) = alerts w @ [a] \<and>
              alert_pet_id a = playroom_pet_id p \<and>
              alert_room_id a = Some (playroom_room_id p) \<and>
              alert_kind a = playroom_kind p \<and>
              alert_severity a = playroom_severity p \<and>
              alert_state a = playroom_state p \<and>
              alert_evidence_url a = Some (playroom_evidence_url p) \<and>
              alert_ts a = column_datetime w (playroom_ts p))"
  using ok
  by (auto simp: handle_playroom_alert_def decode_def d v run_defs Let_def
      split: bool.splits list.splits)

text \<open>On SQLite no timestamp that has a UTC offset is kept as it was given.\<close>

lemma sqlite_datetime_drops_offset: "utcoffset t \<noteq> None \<Longrightarrow> sqlite_datetime t \<noteq> t"
  by (cases t) (auto simp: sqlite_datetime_def)

text \<open>
  C7 asks that the stored alert's \<open>ts\<close> equal the payload's, and the columns are declared
  \<open>DateTime(timezone=True)\<close> to that end. On the store that the default \<open>database_url\<close>
  selects it does not: in scenario 5 the payload's \<open>ts\<close> is midnight of 1 January 2024
  at UTC offset 0, and the one alert stored has that wall time and no offset. The other
  six fields are stored as given, and the events table stays empty.
\<close>

theorem playroom_alert_ts_loses_offset:
  "PlayroomAlertPayload_model_validate_json scenario_lib (Document (JObj playroom_doc)) =
     Inr \<lparr>playroom_pet_id = ''p2'', playroom_room_id = ''r1'', playroom_kind = ''fight'',
          playroom_severity = ''high'', playroom_state = ''open'',
          playroom_evidence_url = ''https://x/e.mp4'',
          playroom_ts = Datetime 2024 1 1 0 0 0 0 (Some 0)\<rparr> \<and>
   handle_playroom_alert scenario_lib (playroom_msg playroom_doc) (empty_world []) =
     (Inr (),
      \<lparr>events = [],
       alerts = [\<lparr>alert_id = Some ''id-'', alert_pet_id = ''p2'', alert_room_id = Some ''r1'',
                  alert_kind = ''fight'', alert_severity = ''high'', alert_state = ''open'',
                  alert_evidence_url = Some ''https://x/e.mp4'',
                  alert_ts = Datetime 2024 1 1 0 0 0 0 None,
                  alert_created_at = Some (Datetime 2024 1 2 0 0 0 0 None)\<rparr>],
       log = [LogRecord INFO ''Received playroom alert for room %s'' [Str ''r1'']],
       clock = (\<lambda>n. Datetime 2024 1 2 0 0 n 0 (Some 0)), clock_reads = 1,
       uuid4 = (\<lambda>n. ''id-'' @ replicate n (CHR ''i'')), uuids_drawn = 1,
       commit_faults = [], column_datetime = sqlite_datetime\<rparr>)"
  by (simp add: scenario_run_defs)

text \<open>
  C10. An alert that the litter handler adds carries as \<open>ts\<close> a reading of the clock:
  \<open>create_alert_from_event\<close>, given no \<open>ts\<close>, takes the current time, and the handler
  gives it none. The reading, which the table holds as the store keeps it, is the one
  after that which stamped the event row; the event's own \<open>ts\<close> does not enter into it.
\<close>

theorem derived_alert_ts_is_clock:
  "(create_alert_from_event session w pet_id kind severity state room_id evidence_url None =
      (Inr (AlertObj row), session', w') \<longrightarrow> alert_ts row = fst (utcnow w)) \<and>
   (alerts (snd (handle_litter_event S lib msg w)) = alerts w @ new \<and> a \<in> set new \<longrightarrow>
      alert_ts a = column_datetime w (clock w (Suc (clock_reads w))))"
proof (intro conjI impI)
  assume "create_alert_from_event session w pet_id kind severity state room_id evidence_url None =
      (Inr (AlertObj row), session', w')"
  then show "alert_ts row = fst (utcnow w)"
    by (auto simp: create_alert_from_event_def session_commit_def session_add_def
        flush_snoc_alert insert_alert_eq utcnow_def Let_def
        split: list.splits bool.splits prod.splits if_splits)
next
  assume a: "alerts (snd (handle_litter_event S lib msg w)) = alerts w @ new \<and> a \<in> set new"
  have "\<exists>added. alerts (snd (handle_litter_event S lib msg w)) = alerts w @ added \<and>
          (\<forall>x \<in> set added. alert_ts x = column_datetime w (clock w (Suc (clock_reads w))))"
    by (auto simp: handle_litter_event_def decode_def run_defs Let_def
        split: bool.splits list.splits sum.splits bytes.splits)
  then obtain added where "alerts (snd (handle_litter_event S lib msg w)) = alerts w @ added"
    and stamped: "\<forall>x \<in> set added. alert_ts x = column_datetime w (clock w (Suc (clock_reads w)))"
    by blast
  with a have "added = new"
    by simp
  with a stamped show "alert_ts a = column_datetime w (clock w (Suc (clock_reads w)))"
    by blast
qed

text \<open>Scenario 2 on SQLite: the event is of 1 January, the clock shows 2 January, and the
  alert is stamped with the clock's second reading.\<close>

theorem derived_alert_ts_is_clock_witness:
  "map alert_ts (alerts (snd (handle_litter_event default_settings scenario_lib
      (litter_msg (litter_doc ''p1'' ''use'' (Finite 200) (Finite 0.1))) (empty_world [])))) =
     [column_datetime (empty_world []) (clock (empty_world []) (Suc (clock_reads (empty_world []))))] \<and>
   map event_ts (events (snd (handle_litter_event default_settings scenario_lib
      (litter_msg (litter_doc ''p1'' ''use'' (Finite 200) (Finite 0.1))) (empty_world [])))) =
     [Datetime 2024 1 1 0 0 0 0 None] \<and>
   column_datetime (empty_world []) (clock (empty_world []) (Suc (clock_reads (empty_world [])))) =
     Datetime 2024 1 2 0 0 1 0 None"
proof -
  let ?run = "handle_litter_event default_settings scenario_lib
      (litter_msg (litter_doc ''p1'' ''use'' (Finite 200) (Finite 0.1))) (empty_world [])"
  let ?a = "\<lparr>alert_id = Some ''id-i'', alert_pet_id = ''p1'', alert_room_id = None,
      alert_kind = ''litter-anomaly'', alert_severity = ''high'', alert_state = ''open'',
      alert_evidence_url = None, alert_ts = Datetime 2024 1 2 0 0 1 0 None,
      alert_created_at = Some (Datetime 2024 1 2 0 0 2 0 None)\<rparr>"
  have run: "alerts (snd ?run) = alerts (empty_world []) @ [?a]"
    by (simp add: scenario_run_defs)
  have ev: "map event_ts (events (snd ?run)) = [Datetime 2024 1 1 0 0 0 0 None]"
    by (simp add: scenario_run_defs)
  have clk: "column_datetime (empty_world [])
        (clock (empty_world []) (Suc (clock_reads (empty_world [])))) =
      Datetime 2024 1 2 0 0 1 0 None"
    by (simp add: empty_world_def sqlite_datetime_def)
  have "alert_ts ?a = column_datetime (empty_world [])
      (clock (empty_world []) (Suc (clock_reads (empty_world []))))"
    using derived_alert_ts_is_clock [where S = default_settings and lib = scenario_lib
        and msg = "litter_msg (litter_doc ''p1'' ''use'' (Finite 200) (Finite 0.1))"
        and w = "empty_world []" and new = "[?a]" and a = ?a] run
    by simp
  moreover have "alerts (empty_world []) = []"
    by (simp add: empty_world_def)
  ultimately show ?thesis
    using run ev clk by simp
qed

section \<open>A failure of the second write\<close>

text \<open>
  C8, as the claim states it, fails: in scenario 2, when the store accepts the first
  write and refuses the second, the handler raises the store's error, and the log holds
  the one INFO record of the receipt and no record of the failure.
\<close>

theorem alert_failure_raises_unlogged:
  "fst (handle_litter_event default_settings scenario_lib
     (litter_msg (litter_doc ''p1'' ''use'' (Finite 200) (Finite 0.1))) (empty_world [False, True])) =
     Inl SQLAlchemyError \<and>
   log (snd (handle_litter_event default_settings scenario_lib
     (litter_msg (litter_doc ''p1'' ''use'' (Finite 200) (Finite 0.1))) (empty_world [False, True]))) =
     [LogRecord INFO ''Received litter event on %s for pet %s''
        [Str ''events.litter.device1'', Str ''p1'']]"
  by (simp add: scenario_run_defs)

text \<open>
  C8, amended. On the litter route the event is committed before the alert write begins:
  when the first write is not refused and the rule finds a breach, the handler's outcome
  is that of \<open>create_alert_from_event\<close> run on an empty session in a world that already
  holds the event row (the row of the object that \<open>record_litter_event\<close> hands back). If the store then refuses the alert's write, the session is rolled
  back and the error is raised out of the handler, which logs nothing of it; the event
  row stays and no alert is stored.
\<close>

theorem alert_failure_keeps_event:
  assumes d: "data msg = Utf8 txt"
    and v: "LitterEventPayload_model_validate_json lib txt = Inr p"
    and breach: "float_gt (litter_duration_s p) (litter_duration_threshold S) \<or>
                 float_lt (litter_conf p) (litter_conf_threshold S)"
    and ok: "\<not> (\<exists>fs. commit_faults w = True # fs)"
  shows "\<exists>obj row w1.
           record_litter_event []
             (logger_info ''Received litter event on %s for pet %s''
                [Str (subject msg), Str (litter_pet_id p)] w) (subject msg) p =
             (Inr (EventObj obj), [], w1) \<and>
           row = event_row (column_datetime w) obj \<and>
           events w1 = events w @ [row] \<and> alerts w1 = alerts w \<and>
           commit_faults w1 = tl (commit_faults w) \<and>
           handle_litter_event S lib msg w =
             (case create_alert_from_event [] w1 (litter_pet_id p) ''litter-anomaly''
                     (if float_lt (litter_conf p) (litter_conf_threshold S)
                      then ''high'' else ''moderate'') ''open'' None None None of
                (Inl e, session, w2) \<Rightarrow> (Inl e, w2)
              | (Inr alert, session, w2) \<Rightarrow> (Inr (), w2)) \<and>
           ((\<exists>fs. tl (commit_faults w) = True # fs) \<longrightarrow>
              fst (handle_litter_event S lib msg w) = Inl SQLAlchemyError \<and>
              events (snd (handle_litter_event S lib msg w)) = events w @ [row] \<and>
              alerts (snd (handle_litter_event S lib msg w)) = alerts w \<and>
              log (snd (handle_litter_event S lib msg w)) =
                log w @ [LogRecord INFO ''Received litter event on %s for pet %s''
                           [Str (subject msg), Str (litter_pet_id p)]])"
  using ok breach
  by (auto simp: handle_litter_event_def decode_def d v run_defs Let_def
      split: bool.splits list.splits)

text \<open>Scenario 2 with the second write refused.\<close>

theorem alert_failure_keeps_event_witness:
  "fst (handle_litter_event default_settings scenario_lib
     (litter_msg (litter_doc ''p1'' ''use'' (Finite 200) (Finite 0.1))) (empty_world [False, True])) =
     Inl SQLAlchemyError \<and>
   (\<exists>row. events (snd (handle_litter_event default_settings scenario_lib
     (litter_msg (litter_doc ''p1'' ''use'' (Finite 200) (Finite 0.1))) (empty_world [False, True]))) =
       [row]) \<and>
   alerts (snd (handle_litter_event default_settings scenario_lib
     (litter_msg (litter_doc ''p1'' ''use'' (Finite 200) (Finite 0.1))) (empty_world [False, True]))) = []"
proof -
  have breach: "float_gt (litter_duration_s \<lparr>litter_pet_id = ''p1'', litter_type = ''use'',
          litter_ts = Datetime 2024 1 1 0 0 0 0 (Some 0),
          litter_duration_s = Finite 200, litter_conf = Finite 0.1, litter_payload = []\<rparr>)
        (litter_duration_threshold default_settings) \<or>
      float_lt (litter_conf \<lparr>litter_pet_id = ''p1'', litter_type = ''use'',
          litter_ts = Datetime 2024 1 1 0 0 0 0 (Some 0),
          litter_duration_s = Finite 200, litter_conf = Finite 0.1, litter_payload = []\<rparr>)
        (litter_conf_threshold default_settings)"
    by (simp add: default_settings_def)
  have ok: "\<not> (\<exists>fs. commit_faults (empty_world [False, True]) = True # fs)"
    by (simp add: empty_world_def)
  have second: "\<exists>fs. tl (commit_faults (empty_world [False, True])) = True # fs"
    by (simp add: empty_world_def)
  have none: "alerts (empty_world [False, True]) = [] \<and> events (empty_world [False, True]) = []"
    by (simp add: empty_world_def)
  show ?thesis
    using alert_failure_keeps_event [OF litter_msg_data scenario_litter_valid breach ok] second none
    by auto
qed

end
